theory Spec2Isabelle
  imports Main "HOL-Library.Sublist"
begin

section \<open>JavaScript values read by the routes\<close>

text \<open>
  Every backend helper of \<^verbatim>\<open>app/utils/payload-helper.ts\<close> ends in
  \<^verbatim>\<open>await resp.json()\<close>, so what a route sees of a backend answer is a parsed
  JSON value. A number is carried as the text that JavaScript's number-to-string
  conversion gives it (\<^verbatim>\<open>0\<close> and \<^verbatim>\<open>-0\<close> both as \<open>''0''\<close>); an object is the
  list of its own properties, each key once, as \<^verbatim>\<open>JSON.parse\<close> leaves it.
\<close>

datatype json =
    JNull
  | JBool bool
  | JNum string
  | JStr string
  | JArr "json list"
  | JObj "(string \<times> json) list"

text \<open>A JavaScript value that may also be \<^verbatim>\<open>undefined\<close> (\<open>None\<close>).\<close>

type_synonym jsval = "json option"

text \<open>What a \<^verbatim>\<open>throw\<close> carries: an \<^verbatim>\<open>Error\<close> object with its message (the
  \<^verbatim>\<open>TypeError\<close> of a failed \<^verbatim>\<open>fetch\<close>, the \<^verbatim>\<open>SyntaxError\<close> of a body that is not
  JSON, the \<^verbatim>\<open>Error(...)\<close> the register route throws itself), or any other value.\<close>

datatype thrown = JsError string | NonError

text \<open>Truthiness, as \<^verbatim>\<open>if (x)\<close>, \<^verbatim>\<open>!x\<close> and \<^verbatim>\<open>x || y\<close> test it.\<close>

fun truthy :: "jsval \<Rightarrow> bool" where
  "truthy None = False"
| "truthy (Some JNull) = False"
| "truthy (Some (JBool b)) = b"
| "truthy (Some (JNum n)) = (n \<noteq> ''0'' \<and> n \<noteq> ''NaN'')"
| "truthy (Some (JStr s)) = (s \<noteq> [])"
| "truthy (Some (JArr xs)) = True"
| "truthy (Some (JObj kvs)) = True"

text \<open>
  Optional chaining \<^verbatim>\<open>v?.k\<close> for the property names the routes read
  (\<^verbatim>\<open>errors\<close>, \<^verbatim>\<open>user\<close>, \<^verbatim>\<open>token\<close>, \<^verbatim>\<open>expires\<close>, \<^verbatim>\<open>message\<close>): none of them
  is inherited by a string, a number, a boolean or an array, so only an object that owns
  the key yields a value; \<^verbatim>\<open>null\<close> and \<^verbatim>\<open>undefined\<close> short-circuit to \<^verbatim>\<open>undefined\<close>.
\<close>

fun opt_prop :: "jsval \<Rightarrow> string \<Rightarrow> jsval" where
  "opt_prop (Some (JObj kvs)) k = map_of kvs k"
| "opt_prop v k = None"

text \<open>
  The plain member access \<^verbatim>\<open>x[0]\<close>: a \<^verbatim>\<open>TypeError\<close> on \<^verbatim>\<open>null\<close> and
  \<^verbatim>\<open>undefined\<close>, the first element of an array, the first character of a string, the
  property \<^verbatim>\<open>"0"\<close> of an object, \<^verbatim>\<open>undefined\<close> otherwise.
\<close>

fun index0 :: "jsval \<Rightarrow> thrown + jsval" where
  "index0 None = Inl (JsError ''Cannot read properties of undefined (reading '0')'')"
| "index0 (Some JNull) = Inl (JsError ''Cannot read properties of null (reading '0')'')"
| "index0 (Some (JArr xs)) = Inr (case xs of [] \<Rightarrow> None | x # _ \<Rightarrow> Some x)"
| "index0 (Some (JStr s)) = Inr (case s of [] \<Rightarrow> None | c # _ \<Rightarrow> Some (JStr [c]))"
| "index0 (Some (JObj kvs)) = Inr (map_of kvs ''0'')"
| "index0 (Some (JBool b)) = Inr None"
| "index0 (Some (JNum n)) = Inr None"

text \<open>The expression \<^verbatim>\<open>resp.errors[0]?.message\<close> of all three actions.\<close>

definition first_error_message :: "json \<Rightarrow> thrown + jsval" where
  "first_error_message resp =
     (case index0 (opt_prop (Some resp) ''errors'') of
        Inl e \<Rightarrow> Inl e
      | Inr first \<Rightarrow> Inr (opt_prop first ''message''))"

text \<open>
  What the routes take from the JavaScript runtime without fixing it: the rendering
  \<^verbatim>\<open>new Date(x).toUTCString()\<close> of a primitive or undefined \<open>x\<close>, the message of
  the \<^verbatim>\<open>TypeError\<close> thrown when an object cannot be converted to a primitive value,
  and the message of the \<^verbatim>\<open>TypeError\<close> that \<^verbatim>\<open>Headers\<close> throws for a header value
  it refuses.
\<close>

record runtime =
  toUTCString :: "jsval \<Rightarrow> string"
  primitive_error :: string
  header_error :: "string \<Rightarrow> string"

text \<open>
  String conversion, as a template literal and \<^verbatim>\<open>Error(msg)\<close> apply it; \<open>None\<close> is
  the \<^verbatim>\<open>TypeError\<close> of a value that cannot be converted. A parsed object that owns
  a \<^verbatim>\<open>toString\<close> property hides \<^verbatim>\<open>Object.prototype.toString\<close> behind a value that
  is not callable, and neither its own \<^verbatim>\<open>valueOf\<close> nor the inherited one yields a
  primitive, so the conversion throws; any other object is \<^verbatim>\<open>[object Object]\<close>. An
  array joins the conversions of its elements with commas, \<^verbatim>\<open>null\<close> as the empty
  string, and throws when an element does.
\<close>

fun join_comma :: "string list \<Rightarrow> string" where
  "join_comma [] = []"
| "join_comma [s] = s"
| "join_comma (s # t # ss) = s @ '','' @ join_comma (t # ss)"

fun to_string :: "json \<Rightarrow> string option" where
  "to_string JNull = Some ''null''"
| "to_string (JBool b) = Some (if b then ''true'' else ''false'')"
| "to_string (JNum n) = Some n"
| "to_string (JStr s) = Some s"
| "to_string (JArr xs) =
     map_option join_comma (those (map (\<lambda>x. if x = JNull then Some [] else to_string x) xs))"
| "to_string (JObj kvs) =
     (if map_of kvs ''toString'' = None then Some ''[object Object]'' else None)"

definition ToString :: "runtime \<Rightarrow> json \<Rightarrow> thrown + string" where
  "ToString rt j =
     (case to_string j of None \<Rightarrow> Inl (JsError (primitive_error rt)) | Some s \<Rightarrow> Inr s)"

text \<open>A substitution \<^verbatim>\<open>${v}\<close> of a template literal.\<close>

definition template_str :: "runtime \<Rightarrow> jsval \<Rightarrow> thrown + string" where
  "template_str rt v = (case v of None \<Rightarrow> Inr ''undefined'' | Some j \<Rightarrow> ToString rt j)"

text \<open>
  What \<^verbatim>\<open>throw Error(msg)\<close> throws: an \<^verbatim>\<open>Error\<close> whose message is the converted
  \<^verbatim>\<open>msg\<close> (empty when \<^verbatim>\<open>msg\<close> is \<^verbatim>\<open>undefined\<close>), or the \<^verbatim>\<open>TypeError\<close> of the
  conversion.
\<close>

definition Error_of :: "runtime \<Rightarrow> jsval \<Rightarrow> thrown" where
  "Error_of rt msg =
     (case msg of
        None \<Rightarrow> JsError []
      | Some j \<Rightarrow> (case ToString rt j of Inl e \<Rightarrow> e | Inr s \<Rightarrow> JsError s))"

text \<open>
  \<^verbatim>\<open>new Date(x).toUTCString()\<close>: an array or an object is converted to a primitive
  first (which for a parsed value is its string conversion, or the same \<^verbatim>\<open>TypeError\<close>)
  and the date is read from that string; rendering itself never throws.
\<close>

definition Date_toUTCString :: "runtime \<Rightarrow> jsval \<Rightarrow> thrown + string" where
  "Date_toUTCString rt x =
     (case x of
        Some (JArr xs) \<Rightarrow>
          (case ToString rt (JArr xs) of
             Inl e \<Rightarrow> Inl e
           | Inr s \<Rightarrow> Inr (toUTCString rt (Some (JStr s))))
      | Some (JObj kvs) \<Rightarrow>
          (case ToString rt (JObj kvs) of
             Inl e \<Rightarrow> Inl e
           | Inr s \<Rightarrow> Inr (toUTCString rt (Some (JStr s))))
      | _ \<Rightarrow> Inr (toUTCString rt x))"

section \<open>Requests, the backend and the calls made to it\<close>

text \<open>A form entry is a string or an uploaded file.\<close>

datatype form_value = Text string | File

text \<open>
  Of a \<^verbatim>\<open>Request\<close> the routes read the \<^verbatim>\<open>Cookie\<close> header
  (\<^verbatim>\<open>request.headers.get("Cookie")\<close>, \<^verbatim>\<open>null\<close> when absent) and the form body
  (\<^verbatim>\<open>await request.formData()\<close>, which throws on a body that is not a form).
\<close>

record request =
  headers_Cookie :: "string option"
  formData :: "thrown + (string \<times> form_value) list"

text \<open>\<^verbatim>\<open>request.headers.get("Cookie") || ""\<close>\<close>

definition cookie_or_empty :: "request \<Rightarrow> string" where
  "cookie_or_empty req =
     (case headers_Cookie req of None \<Rightarrow> [] | Some c \<Rightarrow> if c = [] then [] else c)"

text \<open>
  The backend is the environment. Each field is one endpoint: the outcome of
  \<^verbatim>\<open>fetch\<close> followed by \<^verbatim>\<open>resp.json()\<close>, either a thrown value (the request failed
  or the body did not parse) or the parsed body. No route calls an endpoint twice, so a
  function of the arguments is as general as a stateful backend.
\<close>

record backend =
  GET_users_me :: "string \<Rightarrow> thrown + json"
  POST_users_login :: "string \<Rightarrow> string \<Rightarrow> thrown + json"
  POST_users_logout :: "string \<Rightarrow> thrown + json"
  POST_users :: "string \<Rightarrow> string \<Rightarrow> string \<Rightarrow> string \<Rightarrow> thrown + json"
  GET_users :: "string \<Rightarrow> thrown + json"

text \<open>The requests a route sent, in order, with the cookie or the body fields sent.\<close>

datatype api_call =
    Me string
  | Login string string
  | Logout string
  | Create string string string string
  | ListUsers string

text \<open>
  An asynchronous computation of a route: what it returned or threw, and the backend
  calls it made on the way.
\<close>

type_synonym 'a eff = "(thrown + 'a) \<times> api_call list"

definition eff_return :: "'a \<Rightarrow> 'a eff" where
  "eff_return a = (Inr a, [])"

definition eff_throw :: "thrown \<Rightarrow> 'a eff" where
  "eff_throw e = (Inl e, [])"

text \<open>Sequencing (\<^verbatim>\<open>await\<close>, then the rest): a throw skips the rest.\<close>

definition eff_bind :: "'a eff \<Rightarrow> ('a \<Rightarrow> 'b eff) \<Rightarrow> 'b eff" where
  "eff_bind m f =
     (case m of
        (Inl e, cs) \<Rightarrow> (Inl e, cs)
      | (Inr a, cs) \<Rightarrow> (case f a of (r, cs') \<Rightarrow> (r, cs @ cs')))"

text \<open>\<^verbatim>\<open>try { m } catch (error) { h error }\<close>\<close>

definition try_catch :: "'a eff \<Rightarrow> (thrown \<Rightarrow> 'a eff) \<Rightarrow> 'a eff" where
  "try_catch m h =
     (case m of
        (Inl e, cs) \<Rightarrow> (case h e of (r, cs') \<Rightarrow> (r, cs @ cs'))
      | (Inr a, cs) \<Rightarrow> (Inr a, cs))"

text \<open>One \<^verbatim>\<open>fetch\<close> with its \<^verbatim>\<open>resp.json()\<close>, recorded.\<close>

definition fetch_json :: "api_call \<Rightarrow> thrown + json \<Rightarrow> json eff" where
  "fetch_json c r = (r, [c])"

subsection \<open>\<^verbatim>\<open>payload-helper.ts\<close>\<close>

definition checkUser :: "backend \<Rightarrow> request \<Rightarrow> jsval eff" where
  "checkUser be req =
     eff_bind (fetch_json (Me (cookie_or_empty req)) (GET_users_me be (cookie_or_empty req)))
       (\<lambda>user. eff_return (opt_prop (Some user) ''user''))"

record login_data =
  email :: string
  password :: string

record register_data = login_data +
  firstName :: string
  lastName :: string

definition loginUser :: "backend \<Rightarrow> request \<Rightarrow> login_data \<Rightarrow> json eff" where
  "loginUser be req d =
     fetch_json (Login (email d) (password d)) (POST_users_login be (email d) (password d))"

definition logoutUser :: "backend \<Rightarrow> request \<Rightarrow> json eff" where
  "logoutUser be req =
     fetch_json (Logout (cookie_or_empty req)) (POST_users_logout be (cookie_or_empty req))"

definition createUser :: "backend \<Rightarrow> string \<Rightarrow> string \<Rightarrow> string \<Rightarrow> string \<Rightarrow> json eff" where
  "createUser be e p f l = fetch_json (Create e p f l) (POST_users be e p f l)"

section \<open>The credential validator (the Zod schemas)\<close>

text \<open>
  Both routes validate \<^verbatim>\<open>Object.fromEntries(formData)\<close>: an object in which a
  later entry of the same name replaces an earlier one.
\<close>

definition fromEntries :: "(string \<times> form_value) list \<Rightarrow> string \<Rightarrow> form_value option" where
  "fromEntries fd = map_of (rev fd)"

text \<open>
  A Zod string schema is \<^verbatim>\<open>z.string()\<close> followed by a chain of checks. The library
  keeps the chain as a list in the order written and runs it in that order over the
  current value: \<^verbatim>\<open>min\<close> and \<^verbatim>\<open>email\<close> record an issue when the value at that
  point fails, \<^verbatim>\<open>trim\<close> replaces the value by its trimmed form for the checks after
  it and for the output. The parse succeeds when no issue was recorded.
\<close>

datatype check = Email | Min nat | Trim

text \<open>The characters \<^verbatim>\<open>String.prototype.trim\<close> removes, among the 8-bit ones.\<close>

definition js_space :: "char \<Rightarrow> bool" where
  "js_space c = (c \<in> set [CHR 0x09, CHR 0x0A, CHR 0x0B, CHR 0x0C, CHR 0x0D, CHR '' '', CHR 0xA0])"

definition js_trim :: "string \<Rightarrow> string" where
  "js_trim s = rev (dropWhile js_space (rev (dropWhile js_space s)))"

text \<open>
  The library's address pattern (Zod 3):
  \<^verbatim>\<open>/^(?!\.)(?!.*\.\.)([A-Z0-9_'+\-\.]*)[A-Z0-9_+-]@([A-Z0-9][A-Z0-9\-]*\.)+[A-Z]{2,}$/i\<close>.
  No character class holds \<^verbatim>\<open>@\<close>, so a match has exactly one, and no class of the
  domain holds a dot, so the domain splits at its dots in one way only: one or more
  labels, then a top-level name of two or more letters.
\<close>

definition letter :: "char \<Rightarrow> bool" where
  "letter c = (c \<in> set ''ABCDEFGHIJKLMNOPQRSTUVWXYZabcdefghijklmnopqrstuvwxyz'')"

definition digit :: "char \<Rightarrow> bool" where
  "digit c = (c \<in> set ''0123456789'')"

definition local_char :: "char \<Rightarrow> bool" where
  "local_char c = (letter c \<or> digit c \<or> c \<in> set [CHR ''_'', CHR 0x27, CHR ''+'', CHR ''-'', CHR ''.''])"

definition local_last :: "char \<Rightarrow> bool" where
  "local_last c = (letter c \<or> digit c \<or> c \<in> set [CHR ''_'', CHR ''+'', CHR ''-''])"

definition label_char :: "char \<Rightarrow> bool" where
  "label_char c = (letter c \<or> digit c \<or> c = CHR ''-'')"

fun split_on :: "char \<Rightarrow> string \<Rightarrow> string list" where
  "split_on d [] = [[]]"
| "split_on d (c # cs) =
     (if c = d then [] # split_on d cs
      else (case split_on d cs of [] \<Rightarrow> [[c]] | p # ps \<Rightarrow> (c # p) # ps))"

fun has_dotdot :: "string \<Rightarrow> bool" where
  "has_dotdot (a # b # cs) = ((a = CHR ''.'' \<and> b = CHR ''.'') \<or> has_dotdot (b # cs))"
| "has_dotdot cs = False"

definition label_ok :: "string \<Rightarrow> bool" where
  "label_ok l = (case l of [] \<Rightarrow> False | c # cs \<Rightarrow> (letter c \<or> digit c) \<and> list_all label_char cs)"

definition domain_ok :: "string \<Rightarrow> bool" where
  "domain_ok d =
     (case rev (split_on (CHR ''.'') d) of
        tld # l # ls \<Rightarrow> 2 \<le> length tld \<and> list_all letter tld \<and> list_all label_ok (l # ls)
      | _ \<Rightarrow> False)"

definition local_ok :: "string \<Rightarrow> bool" where
  "local_ok l =
     (case rev l of [] \<Rightarrow> False | c # cs \<Rightarrow> local_last c \<and> list_all local_char cs)"

definition emailRegex :: "string \<Rightarrow> bool" where
  "emailRegex s =
     (case split_on (CHR ''@'') s of
        [l, d] \<Rightarrow> \<not> has_dotdot s \<and> (case s of [] \<Rightarrow> True | c # _ \<Rightarrow> c \<noteq> CHR ''.'')
                  \<and> local_ok l \<and> domain_ok d
      | _ \<Rightarrow> False)"

text \<open>The chain, run in order: whether no issue was recorded so far, and the value.\<close>

fun run_checks :: "check list \<Rightarrow> bool \<Rightarrow> string \<Rightarrow> bool \<times> string" where
  "run_checks [] ok s = (ok, s)"
| "run_checks (Min n # cs) ok s = run_checks cs (ok \<and> n \<le> length s) s"
| "run_checks (Email # cs) ok s = run_checks cs (ok \<and> emailRegex s) s"
| "run_checks (Trim # cs) ok s = run_checks cs ok (js_trim s)"

text \<open>\<^verbatim>\<open>z.string()...\<close> on a property: a missing one or a file is not a string.\<close>

definition z_string :: "check list \<Rightarrow> form_value option \<Rightarrow> string option" where
  "z_string cs v =
     (case v of
        Some (Text s) \<Rightarrow> (case run_checks cs True s of (ok, s') \<Rightarrow> if ok then Some s' else None)
      | _ \<Rightarrow> None)"

text \<open>\<^verbatim>\<open>LoginSchema.safeParse\<close>: \<open>None\<close> is \<^verbatim>\<open>success: false\<close>, \<open>Some d\<close> carries
  \<^verbatim>\<open>result.data\<close> (unknown keys are dropped).\<close>

definition LoginSchema :: "(string \<Rightarrow> form_value option) \<Rightarrow> login_data option" where
  "LoginSchema obj =
     (case (z_string [Email, Trim] (obj ''email''),
            z_string [Min 6] (obj ''password'')) of
        (Some e, Some p) \<Rightarrow> Some \<lparr>email = e, password = p\<rparr>
      | _ \<Rightarrow> None)"

definition RegisterSchema :: "(string \<Rightarrow> form_value option) \<Rightarrow> register_data option" where
  "RegisterSchema obj =
     (case (z_string [Email, Trim] (obj ''email''),
            z_string [Min 6] (obj ''password''),
            z_string [Min 1, Trim] (obj ''firstName''),
            z_string [Min 1, Trim] (obj ''lastName'')) of
        (Some e, Some p, Some f, Some l) \<Rightarrow>
          Some \<lparr>email = e, password = p, firstName = f, lastName = l\<rparr>
      | _ \<Rightarrow> None)"

section \<open>The routes\<close>

text \<open>
  What a loader or an action returns: a redirect with its response headers, the
  loader data \<^verbatim>\<open>{ user: null, error: null }\<close> of the two forms, the home page's
  data (\<^verbatim>\<open>user\<close> and \<^verbatim>\<open>allUsers\<close>), an \<^verbatim>\<open>{ error: ... }\<close> object, or nothing
  at all (the function falls off its end and yields \<^verbatim>\<open>undefined\<close>).
\<close>

datatype outcome =
    Redirect string "(string \<times> string) list"
  | NoUser
  | HomeData jsval json
  | ErrorData jsval
  | Undefined

text \<open>
  The \<^verbatim>\<open>Set-Cookie\<close> value of a successful login, the same template literal in both
  routes. Its substitutions are evaluated and converted from left to right, so a token
  that cannot be converted throws before the date is looked at.
\<close>

definition session_cookie :: "runtime \<Rightarrow> json \<Rightarrow> thrown + string" where
  "session_cookie rt loginResp =
     (case template_str rt (opt_prop (Some loginResp) ''token'') of
        Inl e \<Rightarrow> Inl e
      | Inr t \<Rightarrow>
          (case Date_toUTCString rt (opt_prop (Some loginResp) ''expires'') of
             Inl e \<Rightarrow> Inl e
           | Inr d \<Rightarrow> Inr (''payload-token='' @ t @ ''; path=/; expires='' @ d)))"

text \<open>
  \<^verbatim>\<open>redirect(url, { headers: { name: value } })\<close> builds a \<^verbatim>\<open>Headers\<close> object from the
  given header. \<^verbatim>\<open>Headers\<close> strips tabs, line feeds, carriage returns and spaces from
  both ends of the value and throws a \<^verbatim>\<open>TypeError\<close> when what is left holds a NUL, a
  line feed or a carriage return. (A value must also be a byte string; every \<open>char\<close>
  is one.) The redirects of the loaders carry no header, and the one of the home action
  carries a constant that passes unchanged, so those are written as \<open>Redirect\<close> directly.
\<close>

definition http_whitespace :: "char \<Rightarrow> bool" where
  "http_whitespace c = (c \<in> set [CHR 0x09, CHR 0x0A, CHR 0x0D, CHR '' ''])"

definition header_normalize :: "string \<Rightarrow> string" where
  "header_normalize v = rev (dropWhile http_whitespace (rev (dropWhile http_whitespace v)))"

definition header_valid :: "string \<Rightarrow> bool" where
  "header_valid v = (CHR 0x00 \<notin> set v \<and> CHR 0x0A \<notin> set v \<and> CHR 0x0D \<notin> set v)"

definition redirect :: "runtime \<Rightarrow> string \<Rightarrow> string \<Rightarrow> string \<Rightarrow> thrown + outcome" where
  "redirect rt url name v =
     (if header_valid (header_normalize v) then Inr (Redirect url [(name, header_normalize v)])
      else Inl (JsError (header_error rt (header_normalize v))))"

text \<open>The handler both actions share:
  \<^verbatim>\<open>if (error instanceof Error) return { error: error.message };
  return { error: "An unknown error occurred" };\<close>
  (the login route logs the error to the console first, which no response shows).\<close>

definition catch_handler :: "thrown \<Rightarrow> outcome eff" where
  "catch_handler error =
     (case error of
        JsError m \<Rightarrow> eff_return (ErrorData (Some (JStr m)))
      | NonError \<Rightarrow> eff_return (ErrorData (Some (JStr ''An unknown error occurred''))))"

subsection \<open>\<^verbatim>\<open>routes/home.tsx\<close>\<close>

definition home_loader :: "backend \<Rightarrow> request \<Rightarrow> outcome eff" where
  "home_loader be req =
     eff_bind (checkUser be req) (\<lambda>user.
       if \<not> truthy user then eff_return (Redirect ''/login'' [])
       else
         eff_bind (fetch_json (ListUsers (cookie_or_empty req)) (GET_users be (cookie_or_empty req)))
           (\<lambda>users. eff_return (HomeData user (if truthy (Some users) then users else JArr []))))"

definition home_action :: "backend \<Rightarrow> request \<Rightarrow> outcome eff" where
  "home_action be req =
     eff_bind (logoutUser be req) (\<lambda>logoutResp.
       if truthy (opt_prop (Some logoutResp) ''errors'') then
         (case first_error_message logoutResp of
            Inl e \<Rightarrow> eff_throw e
          | Inr m \<Rightarrow> eff_return (ErrorData m))
       else
         eff_return (Redirect ''/login''
           [(''Set-Cookie'', ''payload-token=; path=/; expires=Thu, 01 Jan 1970 00:00:00 GMT'')]))"

subsection \<open>\<^verbatim>\<open>routes/login.tsx\<close>\<close>

definition login_loader :: "backend \<Rightarrow> request \<Rightarrow> outcome eff" where
  "login_loader be req =
     eff_bind (checkUser be req) (\<lambda>user.
       if truthy user then eff_return (Redirect ''/'' [])
       else eff_return NoUser)"

definition login_action :: "runtime \<Rightarrow> backend \<Rightarrow> request \<Rightarrow> outcome eff" where
  "login_action rt be req =
     try_catch
       (eff_bind (formData req, []) (\<lambda>fd.
          case LoginSchema (fromEntries fd) of
            None \<Rightarrow> eff_return (ErrorData (Some (JStr ''Invalid form data'')))
          | Some data \<Rightarrow>
              eff_bind (loginUser be req data) (\<lambda>loginResp.
                if truthy (opt_prop (Some loginResp) ''errors'') then
                  (case first_error_message loginResp of
                     Inl e \<Rightarrow> eff_throw e
                   | Inr m \<Rightarrow> eff_return (ErrorData m))
                else if truthy (opt_prop (Some loginResp) ''user'') then
                  (case session_cookie rt loginResp of
                     Inl e \<Rightarrow> eff_throw e
                   | Inr c \<Rightarrow> (redirect rt ''/'' ''Set-Cookie'' c, []))
                else eff_return Undefined)))
       catch_handler"

subsection \<open>\<^verbatim>\<open>routes/register.tsx\<close>\<close>

definition register_loader :: "backend \<Rightarrow> request \<Rightarrow> outcome eff" where
  "register_loader be req =
     eff_bind (checkUser be req) (\<lambda>user.
       if truthy user then eff_return (Redirect ''/'' [])
       else eff_return NoUser)"

definition register_action :: "runtime \<Rightarrow> backend \<Rightarrow> request \<Rightarrow> outcome eff" where
  "register_action rt be req =
     try_catch
       (eff_bind (formData req, []) (\<lambda>fd.
          case RegisterSchema (fromEntries fd) of
            None \<Rightarrow> eff_return (ErrorData (Some (JStr ''Invalid form data'')))
          | Some parsed \<Rightarrow>
              eff_bind (createUser be (email parsed) (password parsed)
                          (firstName parsed) (lastName parsed)) (\<lambda>registerResp.
                eff_bind
                  (if truthy (opt_prop (Some registerResp) ''errors'') then
                     (case first_error_message registerResp of
                        Inl e \<Rightarrow> eff_throw e
                      | Inr m \<Rightarrow> eff_throw (Error_of rt m))
                   else eff_return ()) (\<lambda>_.
                eff_bind (loginUser be req
                            \<lparr>email = email parsed, password = password parsed\<rparr>) (\<lambda>loginResp.
                  if truthy (opt_prop (Some loginResp) ''errors'') then
                    (case first_error_message loginResp of
                       Inl e \<Rightarrow> eff_throw e
                     | Inr m \<Rightarrow> eff_throw (Error_of rt m))
                  else if truthy (opt_prop (Some loginResp) ''user'') then
                    (case session_cookie rt loginResp of
                       Inl e \<Rightarrow> eff_throw e
                     | Inr c \<Rightarrow> (redirect rt ''/'' ''Set-Cookie'' c, []))
                  else eff_return Undefined)))))
       catch_handler"

section \<open>Concrete requests and backends\<close>

text \<open>
  A fragment of the runtime's date rendering, enough for the examples: the epoch for
  \<^verbatim>\<open>null\<close> and \<^verbatim>\<open>0\<close>, one ISO instant, and \<^verbatim>\<open>Invalid Date\<close> for
  \<^verbatim>\<open>undefined\<close> and whatever else the examples do not use.
\<close>

definition utc0 :: "jsval \<Rightarrow> string" where
  "utc0 v =
     (if v = Some (JStr ''2030-01-01T00:00:00.000Z'') then ''Tue, 01 Jan 2030 00:00:00 GMT''
      else if v = Some JNull \<or> v = Some (JNum ''0'') then ''Thu, 01 Jan 1970 00:00:00 GMT''
      else ''Invalid Date'')"

text \<open>A runtime for the examples; the two messages stand for the runtime's wording.\<close>

definition rt0 :: runtime where
  "rt0 = \<lparr>toUTCString = utc0,
          primitive_error = ''Cannot convert object to primitive value'',
          header_error = (\<lambda>v. ''invalid header value'')\<rparr>"

definition a_user :: json where
  "a_user = JObj [(''id'', JNum ''1''), (''email'', JStr ''ann@example.com''),
                  (''firstName'', JStr ''Ann''), (''lastName'', JStr ''Lee''),
                  (''roles'', JArr [JStr ''user''])]"

definition a_session :: json where
  "a_session = JObj [(''user'', a_user), (''token'', JStr ''t0k3n''),
                     (''expires'', JStr ''2030-01-01T00:00:00.000Z'')]"

definition rejection :: "string \<Rightarrow> json" where
  "rejection m = JObj [(''errors'', JArr [JObj [(''message'', JStr m)]])]"

text \<open>A backend that accepts everything, for a browser that holds a session.\<close>

definition be_accept :: backend where
  "be_accept =
     \<lparr>GET_users_me = (\<lambda>c. Inr (JObj [(''user'', a_user)])),
      POST_users_login = (\<lambda>e p. Inr a_session),
      POST_users_logout = (\<lambda>c. Inr (JObj [(''message'', JStr ''Logged out'')])),
      POST_users = (\<lambda>e p f l. Inr (JObj [(''doc'', a_user), (''message'', JStr ''created'')])),
      GET_users = (\<lambda>c. Inr (JObj [(''docs'', JArr [a_user])]))\<rparr>"

text \<open>A backend that answers every operation with a structured failure, and knows no
  user for the cookie.\<close>

definition be_reject :: backend where
  "be_reject =
     \<lparr>GET_users_me = (\<lambda>c. Inr (JObj [(''user'', JNull)])),
      POST_users_login = (\<lambda>e p. Inr (rejection ''The email or password provided is incorrect.'')),
      POST_users_logout = (\<lambda>c. Inr (rejection ''No User'')),
      POST_users = (\<lambda>e p f l. Inr (rejection ''A user with the given email is already registered.'')),
      GET_users = (\<lambda>c. Inr (rejection ''You are not allowed to perform this action.''))\<rparr>"

text \<open>A backend that creates the account and then refuses the login.\<close>

definition be_create_only :: backend where
  "be_create_only = be_reject\<lparr>POST_users := POST_users be_accept\<rparr>"

text \<open>A backend that cannot be reached: every \<^verbatim>\<open>fetch\<close> rejects.\<close>

definition be_down :: backend where
  "be_down =
     \<lparr>GET_users_me = (\<lambda>c. Inl (JsError ''fetch failed'')),
      POST_users_login = (\<lambda>e p. Inl (JsError ''fetch failed'')),
      POST_users_logout = (\<lambda>c. Inl (JsError ''fetch failed'')),
      POST_users = (\<lambda>e p f l. Inl (JsError ''fetch failed'')),
      GET_users = (\<lambda>c. Inl (JsError ''fetch failed''))\<rparr>"

text \<open>A backend whose login answer has neither \<^verbatim>\<open>errors\<close> nor \<^verbatim>\<open>user\<close>.\<close>

definition be_blank :: backend where
  "be_blank = be_accept\<lparr>POST_users_login := (\<lambda>e p. Inr (JObj [(''message'', JStr ''ok'')]))\<rparr>"

text \<open>A backend that accepts the login with a token that holds a line feed.\<close>

definition be_linefeed :: backend where
  "be_linefeed =
     be_accept\<lparr>POST_users_login := (\<lambda>e p. Inr (JObj [(''user'', a_user),
        (''token'', JStr [CHR ''a'', CHR 0x0A, CHR ''b'']),
        (''expires'', JStr ''2030-01-01T00:00:00.000Z'')]))\<rparr>"

definition login_form :: "(string \<times> form_value) list" where
  "login_form = [(''email'', Text ''ann@example.com''), (''password'', Text ''secret1'')]"

definition register_form :: "(string \<times> form_value) list" where
  "register_form = login_form @ [(''firstName'', Text ''Ann''), (''lastName'', Text ''Lee'')]"

definition req_login :: request where
  "req_login = \<lparr>headers_Cookie = None, formData = Inr login_form\<rparr>"

definition req_register :: request where
  "req_register = \<lparr>headers_Cookie = None, formData = Inr register_form\<rparr>"

definition req_short_password :: request where
  "req_short_password =
     \<lparr>headers_Cookie = None,
      formData = Inr [(''email'', Text ''ann@example.com''), (''password'', Text ''abc''),
                      (''firstName'', Text ''Ann''), (''lastName'', Text ''Lee'')]\<rparr>"

definition req_session :: request where
  "req_session = \<lparr>headers_Cookie = Some ''payload-token=t0k3n'', formData = Inr []\<rparr>"

section \<open>Predicates of the properties\<close>

text \<open>The response deletes the session cookie: a redirect whose \<^verbatim>\<open>Set-Cookie\<close> header
  empties \<^verbatim>\<open>payload-token\<close> and dates it at the Unix epoch.\<close>

definition clears_cookie :: "thrown + outcome \<Rightarrow> bool" where
  "clears_cookie r =
     (case r of
        Inr (Redirect loc hs) \<Rightarrow>
          map_of hs ''Set-Cookie'' = Some ''payload-token=; path=/; expires=Thu, 01 Jan 1970 00:00:00 GMT''
      | _ \<Rightarrow> False)"

text \<open>The response carries a cookie of the given name: a redirect whose
  \<^verbatim>\<open>Set-Cookie\<close> header starts with the name and \<^verbatim>\<open>=\<close>.\<close>

definition cookie_named :: "string \<Rightarrow> thrown + outcome \<Rightarrow> bool" where
  "cookie_named n r =
     (case r of
        Inr (Redirect loc hs) \<Rightarrow>
          (case map_of hs ''Set-Cookie'' of Some c \<Rightarrow> prefix (n @ ''='') c | None \<Rightarrow> False)
      | _ \<Rightarrow> False)"

text \<open>The message the shared handler puts into \<^verbatim>\<open>{ error: ... }\<close> for a thrown value.\<close>

definition caught_message :: "thrown \<Rightarrow> string" where
  "caught_message e = (case e of JsError m \<Rightarrow> m | NonError \<Rightarrow> ''An unknown error occurred'')"

text \<open>What the success branch of both actions comes to once the cookie is attempted:
  the redirect, or the message of what was thrown on the way.\<close>

definition cookie_or_error :: "runtime \<Rightarrow> json \<Rightarrow> outcome" where
  "cookie_or_error rt loginResp =
     (case session_cookie rt loginResp of
        Inl e \<Rightarrow> ErrorData (Some (JStr (caught_message e)))
      | Inr c \<Rightarrow>
          if header_valid (header_normalize c)
          then Redirect ''/'' [(''Set-Cookie'', header_normalize c)]
          else ErrorData (Some (JStr (header_error rt (header_normalize c)))))"

section \<open>Properties\<close>

subsection \<open>Evaluating the effect combinators\<close>

lemmas eff_defs = eff_bind_def eff_return_def eff_throw_def try_catch_def fetch_json_def

lemmas helper_defs = checkUser_def loginUser_def logoutUser_def createUser_def

lemma first_error_message_total:
  "truthy (opt_prop (Some r) ''errors'') \<Longrightarrow> \<exists>m. first_error_message r = Inr m"
  by (cases "opt_prop (Some r) ''errors''" rule: truthy.cases)
     (simp_all add: first_error_message_def)

lemma first_error_message_structured:
  "opt_prop (Some r) ''errors'' = Some (JArr (JObj kvs # rest)) \<Longrightarrow>
   first_error_message r = Inr (map_of kvs ''message'')"
  by (simp add: first_error_message_def)

lemma catch_handler_returns:
  "catch_handler e =
     (Inr (ErrorData (Some (JStr (case e of JsError m \<Rightarrow> m | NonError \<Rightarrow> ''An unknown error occurred'')))), [])"
  by (cases e) (simp_all add: catch_handler_def eff_return_def)

lemma try_catch_handler_total: "\<exists>out. fst (try_catch m catch_handler) = Inr out"
  by (cases m; cases "fst m") (auto simp: try_catch_def catch_handler_returns)

lemma Error_of_string: "Error_of rt (Some (JStr m)) = JsError m"
  by (simp add: Error_of_def ToString_def)

lemma session_cookie_nonempty: "session_cookie rt resp = Inr c \<Longrightarrow> c \<noteq> []"
  by (auto simp: session_cookie_def split: sum.splits)

lemma session_cookie_parts:
  "template_str rt (opt_prop (Some resp) ''token'') = Inr t \<Longrightarrow>
   Date_toUTCString rt (opt_prop (Some resp) ''expires'') = Inr d \<Longrightarrow>
   session_cookie rt resp = Inr (''payload-token='' @ t @ ''; path=/; expires='' @ d)"
  by (simp add: session_cookie_def)

text \<open>
  \<^verbatim>\<open>Headers\<close> leaves the name, the token and the attributes of the cookie alone: only
  white space at the end of the rendered date can go.
\<close>

lemma strip_ends_keeps_front:
  assumes "pre \<noteq> []" and "\<not> P (hd pre)" and "\<not> P (last pre)"
  shows "rev (dropWhile P (rev (dropWhile P (pre @ d)))) = pre @ rev (dropWhile P (rev d))"
proof -
  from assms(1,2) have 1: "dropWhile P (pre @ d) = pre @ d"
    by (cases pre) auto
  from assms(1,3) have 2: "dropWhile P (rev pre) = rev pre"
    by (cases "rev pre") (auto simp: hd_rev dest: arg_cong [where f = hd])
  show ?thesis
  proof (cases "\<forall>x\<in>set (rev d). P x")
    case True
    then have "dropWhile P (rev d @ rev pre) = rev pre" and "dropWhile P (rev d) = []"
      by (simp_all add: 2 dropWhile_append)
    then show ?thesis
      by (simp add: 1)
  next
    case False
    then have "dropWhile P (rev d @ rev pre) = dropWhile P (rev d) @ rev pre"
      by (auto simp: dropWhile_append)
    then show ?thesis
      by (simp add: 1)
  qed
qed

lemma header_normalize_cookie:
  "header_normalize (''payload-token='' @ t @ ''; path=/; expires='' @ d)
     = ''payload-token='' @ t @ ''; path=/; expires='' @ rev (dropWhile http_whitespace (rev d))"
proof -
  have "rev (dropWhile http_whitespace (rev (dropWhile http_whitespace
          ((''payload-token='' @ t @ ''; path=/; expires='') @ d))))
        = (''payload-token='' @ t @ ''; path=/; expires='') @ rev (dropWhile http_whitespace (rev d))"
    by (rule strip_ends_keeps_front) (simp_all add: http_whitespace_def)
  then show ?thesis
    by (simp add: header_normalize_def)
qed

text \<open>The constant header of the logout passes \<^verbatim>\<open>Headers\<close> unchanged.\<close>

lemma logout_header_passes:
  "header_valid (header_normalize ''payload-token=; path=/; expires=Thu, 01 Jan 1970 00:00:00 GMT'')
   \<and> header_normalize ''payload-token=; path=/; expires=Thu, 01 Jan 1970 00:00:00 GMT''
     = ''payload-token=; path=/; expires=Thu, 01 Jan 1970 00:00:00 GMT''"
  by (simp add: header_normalize_def header_valid_def http_whitespace_def)

lemma cookie_named_normalized:
  "cookie_named ''payload-token''
     (Inr (Redirect url
        [(''Set-Cookie'', header_normalize (''payload-token='' @ t @ ''; path=/; expires='' @ x))]))"
  by (simp only: header_normalize_cookie) (simp add: cookie_named_def)

lemma login_action_accepted:
  assumes "formData req = Inr fd"
    and "LoginSchema (fromEntries fd) = Some d"
    and "POST_users_login be (email d) (password d) = Inr resp"
    and "\<not> truthy (opt_prop (Some resp) ''errors'')"
    and "truthy (opt_prop (Some resp) ''user'')"
  shows "login_action rt be req = (Inr (cookie_or_error rt resp), [Login (email d) (password d)])"
  using assms
  by (cases "session_cookie rt resp")
     (simp_all add: login_action_def loginUser_def eff_defs catch_handler_returns
       caught_message_def redirect_def cookie_or_error_def)

lemma register_action_accepted:
  assumes "formData req = Inr fd"
    and "RegisterSchema (fromEntries fd) = Some d"
    and "POST_users be (email d) (password d) (firstName d) (lastName d) = Inr r"
    and "\<not> truthy (opt_prop (Some r) ''errors'')"
    and "POST_users_login be (email d) (password d) = Inr l"
    and "\<not> truthy (opt_prop (Some l) ''errors'')"
    and "truthy (opt_prop (Some l) ''user'')"
  shows "register_action rt be req
           = (Inr (cookie_or_error rt l),
              [Create (email d) (password d) (firstName d) (lastName d),
               Login (email d) (password d)])"
  using assms
  by (cases "session_cookie rt l")
     (simp_all add: register_action_def createUser_def loginUser_def eff_defs
       catch_handler_returns caught_message_def redirect_def cookie_or_error_def)

text \<open>A token that is an object owning \<^verbatim>\<open>toString\<close> cannot be put into the template.\<close>

lemma session_cookie_object_token:
  "session_cookie rt (JObj [(''user'', a_user), (''token'', JObj [(''toString'', JNull)])])
     = Inl (JsError (primitive_error rt))"
  by (simp add: session_cookie_def template_str_def ToString_def)

lemma cookie_or_error_built:
  assumes "template_str rt (opt_prop (Some resp) ''token'') = Inr t"
    and "Date_toUTCString rt (opt_prop (Some resp) ''expires'') = Inr x"
    and "header_valid (header_normalize (''payload-token='' @ t @ ''; path=/; expires='' @ x))"
  shows "cookie_or_error rt resp
           = Redirect ''/''
               [(''Set-Cookie'',
                 header_normalize (''payload-token='' @ t @ ''; path=/; expires='' @ x))]"
  unfolding cookie_or_error_def session_cookie_parts [OF assms(1,2)]
  using assms(3) by simp

lemma cookie_or_error_thrown:
  "session_cookie rt resp = Inl e \<Longrightarrow>
   cookie_or_error rt resp = ErrorData (Some (JStr (caught_message e)))"
  by (simp add: cookie_or_error_def)

lemma cookie_or_error_refused:
  "session_cookie rt resp = Inr c \<Longrightarrow> \<not> header_valid (header_normalize c) \<Longrightarrow>
   cookie_or_error rt resp = ErrorData (Some (JStr (header_error rt (header_normalize c))))"
  by (simp add: cookie_or_error_def)

subsection \<open>What the schemas accept\<close>

text \<open>
  An address that matches the pattern starts and ends with a character that
  \<^verbatim>\<open>trim\<close> keeps, so the \<^verbatim>\<open>trim()\<close> after \<^verbatim>\<open>email()\<close> never changes an accepted
  address, and an address with a space before or after it is never accepted.
\<close>

lemma split_on_nonempty: "split_on d s \<noteq> []"
  by (induction s) (auto split: list.splits)

lemma split_on_single: "split_on d s = [p] \<Longrightarrow> p = s"
proof (induction s arbitrary: p)
  case Nil
  then show ?case by simp
next
  case (Cons c cs)
  then show ?case
    by (auto simp: split_on_nonempty split: if_splits list.splits)
qed

lemma split_on_first_prefix: "split_on d s = p # ps \<Longrightarrow> prefix p s"
proof (induction s arbitrary: p ps)
  case Nil
  then show ?case by simp
next
  case (Cons c cs)
  then show ?case
    by (auto split: if_splits list.splits)
qed

lemma split_on_last_suffix: "suffix (last (split_on d s)) s"
proof (induction s)
  case Nil
  then show ?case by simp
next
  case (Cons c cs)
  show ?case
  proof (cases "c = d")
    case True
    with Cons show ?thesis
      by (simp add: split_on_nonempty suffix_Cons)
  next
    case False
    obtain p ps where sp: "split_on d cs = p # ps"
      using split_on_nonempty [of d cs] by (cases "split_on d cs") auto
    show ?thesis
    proof (cases ps)
      case Nil
      with sp have "p = cs" by (simp add: split_on_single)
      with False sp Nil show ?thesis by simp
    next
      case (Cons q qs)
      with False sp \<open>suffix (last (split_on d cs)) cs\<close> show ?thesis
        by (simp add: suffix_Cons)
    qed
  qed
qed

lemma letter_not_space: "letter c \<Longrightarrow> \<not> js_space c"
  by (auto simp: letter_def js_space_def)

lemma local_char_not_space: "local_char c \<Longrightarrow> \<not> js_space c"
  by (auto simp: local_char_def letter_def digit_def js_space_def)

lemma local_last_not_space: "local_last c \<Longrightarrow> \<not> js_space c"
  by (auto simp: local_last_def letter_def digit_def js_space_def)

lemma local_ok_hd: "local_ok l \<Longrightarrow> l \<noteq> [] \<and> \<not> js_space (hd l)"
proof -
  assume a: "local_ok l"
  then have ne: "l \<noteq> []" by (auto simp: local_ok_def)
  from a have all: "\<forall>c \<in> set l. local_char c \<or> local_last c"
    by (cases "rev l") (auto simp: local_ok_def list_all_iff dest!: arg_cong [where f = set])
  from ne have "hd l \<in> set l" by simp
  with all ne show ?thesis
    using local_char_not_space local_last_not_space by blast
qed

lemma domain_ok_last: "domain_ok d \<Longrightarrow> d \<noteq> [] \<and> \<not> js_space (last d)"
proof -
  assume a: "domain_ok d"
  define tld where "tld = last (split_on (CHR ''.'') d)"
  have "rev (split_on (CHR ''.'') d) \<noteq> []" by (simp add: split_on_nonempty)
  then have hd: "hd (rev (split_on (CHR ''.'') d)) = tld"
    by (simp add: tld_def hd_rev)
  from a hd have t: "2 \<le> length tld \<and> list_all letter tld"
    by (cases "rev (split_on (CHR ''.'') d)") (auto simp: domain_ok_def split: list.splits)
  then have ne: "tld \<noteq> []" by auto
  have "suffix tld d" unfolding tld_def by (rule split_on_last_suffix)
  then obtain pre where d: "d = pre @ tld" by (auto simp: suffix_def)
  with ne have "last d = last tld" by simp
  moreover from ne t have "letter (last tld)"
    by (metis last_in_set list_all_iff)
  ultimately show ?thesis using d ne letter_not_space by auto
qed

lemma emailRegex_ends: "emailRegex s \<Longrightarrow> s \<noteq> [] \<and> \<not> js_space (hd s) \<and> \<not> js_space (last s)"
proof -
  assume a: "emailRegex s"
  then obtain l d where sp: "split_on (CHR ''@'') s = [l, d]" and l: "local_ok l" and d: "domain_ok d"
    by (auto simp: emailRegex_def split: list.splits)
  from sp have "prefix l s" by (rule split_on_first_prefix)
  then obtain t where s1: "s = l @ t" by (auto simp: prefix_def)
  from sp have "last (split_on (CHR ''@'') s) = d" by simp
  then have "suffix d s" using split_on_last_suffix [of "CHR ''@''" s] by simp
  then obtain u where s2: "s = u @ d" by (auto simp: suffix_def)
  from local_ok_hd [OF l] s1 have h: "s \<noteq> [] \<and> \<not> js_space (hd s)" by (cases l) auto
  from domain_ok_last [OF d] s2 have "\<not> js_space (last s)" by simp
  with h show ?thesis by simp
qed

lemma js_trim_id: "s \<noteq> [] \<Longrightarrow> \<not> js_space (hd s) \<Longrightarrow> \<not> js_space (last s) \<Longrightarrow> js_trim s = s"
proof -
  assume ne: "s \<noteq> []" and h: "\<not> js_space (hd s)" and l: "\<not> js_space (last s)"
  from ne h have 1: "dropWhile js_space s = s" by (cases s) auto
  from ne l have 2: "dropWhile js_space (rev s) = rev s"
    by (cases "rev s") (auto simp: hd_rev dest: arg_cong [where f = hd])
  show ?thesis by (simp add: js_trim_def 1 2)
qed

lemma accepted_email_unchanged_by_trim: "emailRegex s \<Longrightarrow> js_trim s = s"
  using emailRegex_ends js_trim_id by blast

text \<open>
  So the two string schemas of the routes decide as follows: the address is matched as
  submitted, and a name passes when the submitted text is non-empty, whatever is left of
  it after trimming.
\<close>

lemma z_string_email_trim:
  "z_string [Email, Trim] (Some (Text s)) = (if emailRegex s then Some s else None)"
  by (simp add: z_string_def accepted_email_unchanged_by_trim)

lemma z_string_min1_trim:
  "z_string [Min 1, Trim] (Some (Text s)) = (if s = [] then None else Some (js_trim s))"
  by (cases s) (simp_all add: z_string_def)

lemma padded_email_rejected:
  "js_space c \<Longrightarrow> \<not> emailRegex (c # s) \<and> \<not> emailRegex (s @ [c])"
  using emailRegex_ends [of "c # s"] emailRegex_ends [of "s @ [c]"] by auto

lemma z_string_min_short:
  "length p < n \<Longrightarrow> z_string [Min n] (Some (Text p)) = None"
  by (simp add: z_string_def)

text \<open>The example forms pass their schemas.\<close>

lemma login_form_valid:
  "LoginSchema (fromEntries login_form) = Some \<lparr>email = ''ann@example.com'', password = ''secret1''\<rparr>"
  by (simp add: login_form_def LoginSchema_def z_string_def fromEntries_def
      emailRegex_def local_ok_def domain_ok_def label_ok_def local_last_def local_char_def
      label_char_def letter_def digit_def js_trim_def js_space_def)

lemma register_form_valid:
  "RegisterSchema (fromEntries register_form)
     = Some \<lparr>email = ''ann@example.com'', password = ''secret1'',
             firstName = ''Ann'', lastName = ''Lee''\<rparr>"
  by (simp add: register_form_def login_form_def RegisterSchema_def z_string_def fromEntries_def
      emailRegex_def local_ok_def domain_ok_def label_ok_def local_last_def local_char_def
      label_char_def letter_def digit_def js_trim_def js_space_def)

subsection \<open>Logout\<close>

text \<open>
  Counterexample to C1 as stated: when the backend answers the logout with a structured
  failure, the home action returns the failure's message as data; there is no redirect
  and no \<^verbatim>\<open>Set-Cookie\<close> header, so the cookie is not cleared.
\<close>

theorem C1_counterexample:
  "home_action be_reject req_session
     = (Inr (ErrorData (Some (JStr ''No User''))), [Logout ''payload-token=t0k3n''])
   \<and> \<not> clears_cookie (fst (home_action be_reject req_session))"
  by (simp add: home_action_def logoutUser_def eff_defs be_reject_def req_session_def
      cookie_or_empty_def rejection_def first_error_message_def clears_cookie_def)

text \<open>
  C1 (as amended): for a logout submission that the backend answers with a body, the
  response clears the \<^verbatim>\<open>payload-token\<close> cookie (expiry at the Unix epoch) exactly
  when the body has no truthy \<^verbatim>\<open>errors\<close>; it is then a redirect to \<^verbatim>\<open>/login\<close>.
  When the body is a structured failure, the action returns the first error's message
  and sets no cookie. One call is made to the backend either way.
\<close>

theorem C1_logout_clears_cookie_unless_errors:
  assumes "POST_users_logout be (cookie_or_empty req) = Inr resp"
  shows "(clears_cookie (fst (home_action be req)) \<longleftrightarrow> \<not> truthy (opt_prop (Some resp) ''errors''))
    \<and> (\<not> truthy (opt_prop (Some resp) ''errors'') \<longrightarrow>
         home_action be req
           = (Inr (Redirect ''/login''
                [(''Set-Cookie'', ''payload-token=; path=/; expires=Thu, 01 Jan 1970 00:00:00 GMT'')]),
              [Logout (cookie_or_empty req)]))
    \<and> (opt_prop (Some resp) ''errors'' = Some (JArr (JObj kvs # rest)) \<longrightarrow>
         home_action be req
           = (Inr (ErrorData (map_of kvs ''message'')), [Logout (cookie_or_empty req)]))"
proof (cases "truthy (opt_prop (Some resp) ''errors'')")
  case True
  then obtain m where m: "first_error_message resp = Inr m"
    using first_error_message_total by blast
  with True assms show ?thesis
    by (auto simp: home_action_def logoutUser_def eff_defs clears_cookie_def
        first_error_message_structured)
next
  case False
  with assms show ?thesis
    by (auto simp: home_action_def logoutUser_def eff_defs clears_cookie_def)
qed

text \<open>C1 at a backend that ends the session and at one that reports a failure.\<close>

theorem C1_witness:
  "home_action be_accept req_session
     = (Inr (Redirect ''/login''
          [(''Set-Cookie'', ''payload-token=; path=/; expires=Thu, 01 Jan 1970 00:00:00 GMT'')]),
        [Logout ''payload-token=t0k3n''])
   \<and> clears_cookie (fst (home_action be_accept req_session))
   \<and> home_action be_reject req_session
     = (Inr (ErrorData (Some (JStr ''No User''))), [Logout ''payload-token=t0k3n''])
   \<and> \<not> clears_cookie (fst (home_action be_reject req_session))"
proof -
  have a: "POST_users_logout be_accept (cookie_or_empty req_session)
             = Inr (JObj [(''message'', JStr ''Logged out'')])"
    by (simp add: be_accept_def)
  have r: "POST_users_logout be_reject (cookie_or_empty req_session) = Inr (rejection ''No User'')"
    by (simp add: be_reject_def)
  show ?thesis
    using C1_logout_clears_cookie_unless_errors [OF a]
      C1_logout_clears_cookie_unless_errors [OF r,
        where kvs = "[(''message'', JStr ''No User'')]" and rest = "[]"]
    by (simp add: rejection_def cookie_or_empty_def req_session_def clears_cookie_def)
qed

subsection \<open>Failures of the transport\<close>

text \<open>
  Counterexample to C2 as stated: with the backend unreachable, each of the three
  loaders ends in the thrown error (nothing catches it), and the login action, which
  does catch it, reports the error's own message \<^verbatim>\<open>fetch failed\<close>, not the generic
  message.
\<close>

theorem C2_counterexample:
  "login_loader be_down req_session = (Inl (JsError ''fetch failed''), [Me ''payload-token=t0k3n''])
   \<and> register_loader be_down req_session = (Inl (JsError ''fetch failed''), [Me ''payload-token=t0k3n''])
   \<and> home_loader be_down req_session = (Inl (JsError ''fetch failed''), [Me ''payload-token=t0k3n''])
   \<and> login_action rt0 be_down req_login
       = (Inr (ErrorData (Some (JStr ''fetch failed''))), [Login ''ann@example.com'' ''secret1''])
   \<and> fst (login_action rt0 be_down req_login)
       \<noteq> Inr (ErrorData (Some (JStr ''An unknown error occurred'')))"
  by (simp add: login_loader_def register_loader_def home_loader_def login_action_def
      helper_defs eff_defs be_down_def req_session_def req_login_def login_form_def
      cookie_or_empty_def catch_handler_def LoginSchema_def z_string_def fromEntries_def
      emailRegex_def local_ok_def domain_ok_def label_ok_def local_last_def local_char_def
      label_char_def letter_def digit_def js_trim_def js_space_def)

lemma login_action_login_throws:
  assumes "formData req = Inr fd" "LoginSchema (fromEntries fd) = Some d"
    and "POST_users_login be (email d) (password d) = Inl e"
  shows "login_action rt be req
           = (Inr (ErrorData (Some (JStr (caught_message e)))), [Login (email d) (password d)])"
  using assms
  by (simp add: login_action_def loginUser_def eff_defs catch_handler_returns caught_message_def)

lemma register_action_create_throws:
  assumes "formData req = Inr fd" "RegisterSchema (fromEntries fd) = Some d"
    and "POST_users be (email d) (password d) (firstName d) (lastName d) = Inl e"
  shows "register_action rt be req
           = (Inr (ErrorData (Some (JStr (caught_message e)))),
              [Create (email d) (password d) (firstName d) (lastName d)])"
  using assms
  by (simp add: register_action_def createUser_def eff_defs catch_handler_returns caught_message_def)

lemma register_action_login_throws:
  assumes "formData req = Inr fd" "RegisterSchema (fromEntries fd) = Some d"
    and "POST_users be (email d) (password d) (firstName d) (lastName d) = Inr r"
    and "\<not> truthy (opt_prop (Some r) ''errors'')"
    and "POST_users_login be (email d) (password d) = Inl e"
  shows "register_action rt be req
           = (Inr (ErrorData (Some (JStr (caught_message e)))),
              [Create (email d) (password d) (firstName d) (lastName d),
               Login (email d) (password d)])"
  using assms
  by (simp add: register_action_def createUser_def loginUser_def eff_defs
      catch_handler_returns caught_message_def)

text \<open>
  C2 (as amended): the login and the register action never end in a thrown value,
  whatever the request and the backend do. When the call to the backend throws
  (\<^verbatim>\<open>loginUser\<close> in the login action; \<^verbatim>\<open>createUser\<close>, or \<^verbatim>\<open>loginUser\<close> after a
  successful \<^verbatim>\<open>createUser\<close>, in the register action), the action returns
  \<^verbatim>\<open>{ error: m }\<close> where \<open>m\<close> is the message of the thrown \<^verbatim>\<open>Error\<close>, and the
  generic \<^verbatim>\<open>An unknown error occurred\<close> only when the thrown value is not an
  \<^verbatim>\<open>Error\<close>; no further backend call follows the failed one.
\<close>

theorem C2_actions_catch_failures:
  "(\<exists>out. fst (login_action rt be req) = Inr out)
   \<and> (\<exists>out. fst (register_action rt be req) = Inr out)
   \<and> (formData req = Inr fd \<and> LoginSchema (fromEntries fd) = Some d
        \<and> POST_users_login be (email d) (password d) = Inl e
      \<longrightarrow> login_action rt be req
            = (Inr (ErrorData (Some (JStr (caught_message e)))), [Login (email d) (password d)]))
   \<and> (formData req = Inr fd \<and> RegisterSchema (fromEntries fd) = Some rd
        \<and> POST_users be (email rd) (password rd) (firstName rd) (lastName rd) = Inl e
      \<longrightarrow> register_action rt be req
            = (Inr (ErrorData (Some (JStr (caught_message e)))),
               [Create (email rd) (password rd) (firstName rd) (lastName rd)]))
   \<and> (formData req = Inr fd \<and> RegisterSchema (fromEntries fd) = Some rd
        \<and> POST_users be (email rd) (password rd) (firstName rd) (lastName rd) = Inr r
        \<and> \<not> truthy (opt_prop (Some r) ''errors'')
        \<and> POST_users_login be (email rd) (password rd) = Inl e
      \<longrightarrow> register_action rt be req
            = (Inr (ErrorData (Some (JStr (caught_message e)))),
               [Create (email rd) (password rd) (firstName rd) (lastName rd),
                Login (email rd) (password rd)]))"
proof -
  have 1: "\<exists>out. fst (login_action rt be req) = Inr out"
    unfolding login_action_def by (rule try_catch_handler_total)
  have 2: "\<exists>out. fst (register_action rt be req) = Inr out"
    unfolding register_action_def by (rule try_catch_handler_total)
  show ?thesis
    using 1 2 login_action_login_throws register_action_create_throws
      register_action_login_throws
    by blast
qed

text \<open>C2 at an unreachable backend, and at one whose login throws a value that is not
  an \<^verbatim>\<open>Error\<close>.\<close>

theorem C2_witness:
  "login_action rt0 be_down req_login
     = (Inr (ErrorData (Some (JStr ''fetch failed''))), [Login ''ann@example.com'' ''secret1''])
   \<and> register_action rt0 be_down req_register
     = (Inr (ErrorData (Some (JStr ''fetch failed''))),
        [Create ''ann@example.com'' ''secret1'' ''Ann'' ''Lee''])
   \<and> register_action rt0 (be_accept\<lparr>POST_users_login := (\<lambda>e p. Inl NonError)\<rparr>) req_register
     = (Inr (ErrorData (Some (JStr ''An unknown error occurred''))),
        [Create ''ann@example.com'' ''secret1'' ''Ann'' ''Lee'',
         Login ''ann@example.com'' ''secret1''])"
  using
    C2_actions_catch_failures [of rt0 be_down req_login login_form
      "\<lparr>email = ''ann@example.com'', password = ''secret1''\<rparr>" "JsError ''fetch failed''"]
    C2_actions_catch_failures [of rt0 be_down req_register register_form _ "JsError ''fetch failed''"
      "\<lparr>email = ''ann@example.com'', password = ''secret1'',
             firstName = ''Ann'', lastName = ''Lee''\<rparr>"]
    C2_actions_catch_failures [of rt0 "be_accept\<lparr>POST_users_login := (\<lambda>e p. Inl NonError)\<rparr>"
      req_register register_form _ NonError
      "\<lparr>email = ''ann@example.com'', password = ''secret1'',
             firstName = ''Ann'', lastName = ''Lee''\<rparr>"
      "JObj [(''doc'', a_user), (''message'', JStr ''created'')]"]
  by (simp add: login_form_valid register_form_valid req_login_def req_register_def
      be_down_def be_accept_def caught_message_def)

subsection \<open>The validator\<close>

text \<open>
  C3: the validator would trim the email before checking it against the address grammar
  and accept a first or last name exactly when it is non-empty after trimming. The
  schemas run their checks in the order written, \<^verbatim>\<open>email()\<close> and \<^verbatim>\<open>min(1)\<close> before
  \<^verbatim>\<open>trim()\<close>: evaluated on an address padded with spaces the login schema fails, and
  on a first name of three spaces the register schema succeeds with an empty first name.
\<close>

theorem C3_checks_run_before_trim:
  "LoginSchema (fromEntries [(''email'', Text '' ann@example.com ''), (''password'', Text ''secret1'')])
     = None
   \<and> RegisterSchema (fromEntries [(''email'', Text ''ann@example.com''), (''password'', Text ''secret1''),
                                  (''firstName'', Text ''   ''), (''lastName'', Text ''Lee'')])
     = Some \<lparr>email = ''ann@example.com'', password = ''secret1'', firstName = [], lastName = ''Lee''\<rparr>"
  by (simp add: LoginSchema_def RegisterSchema_def z_string_def fromEntries_def
      emailRegex_def local_ok_def domain_ok_def label_ok_def local_last_def local_char_def
      label_char_def letter_def digit_def js_trim_def js_space_def)

subsection \<open>Registration\<close>

text \<open>
  Counterexample to C4 as stated: the account is created and the login that follows
  succeeds (its answer has a user and no errors), but the token holds a line feed. The
  template literal yields a cookie value that \<^verbatim>\<open>Headers\<close> refuses, \<^verbatim>\<open>redirect\<close>
  throws inside the \<^verbatim>\<open>try\<close>, and the action returns the caught message: no redirect
  and no cookie.
\<close>

theorem C4_counterexample:
  "register_action rt0 be_linefeed req_register
     = (Inr (ErrorData (Some (JStr ''invalid header value''))),
        [Create ''ann@example.com'' ''secret1'' ''Ann'' ''Lee'',
         Login ''ann@example.com'' ''secret1''])
   \<and> \<not> cookie_named ''payload-token'' (fst (register_action rt0 be_linefeed req_register))"
  by (simp add: register_action_def createUser_def loginUser_def eff_defs req_register_def
      register_form_valid be_linefeed_def be_accept_def a_user_def session_cookie_def
      template_str_def ToString_def Date_toUTCString_def rt0_def utc0_def redirect_def
      header_normalize_def header_valid_def http_whitespace_def catch_handler_def
      cookie_named_def)

text \<open>
  C4 (as amended): for a valid registration submission that the backend answers, the
  register action calls \<^verbatim>\<open>createUser\<close> first. On a structured failure it returns that
  failure's message and makes no login call. Otherwise it calls \<^verbatim>\<open>loginUser\<close> with
  the same email and password; a structured failure of that call returns the login
  answer's message. An answer with a user and no errors gives a redirect to \<^verbatim>\<open>/\<close>
  that sets the \<^verbatim>\<open>payload-token\<close> cookie to the token, path \<^verbatim>\<open>/\<close> and the rendered
  expiry, provided the token and the expiry convert to text and the cookie value, as
  \<^verbatim>\<open>Headers\<close> stores it, holds no NUL, line feed or carriage return. When the cookie
  value cannot be built, the action returns the message of the error thrown on the way
  and sets no cookie.
\<close>

theorem C4_register_then_login:
  assumes "formData req = Inr fd"
    and "RegisterSchema (fromEntries fd) = Some d"
    and "POST_users be (email d) (password d) (firstName d) (lastName d) = Inr r"
  shows
    "(opt_prop (Some r) ''errors'' = Some (JArr (JObj kvs # rest))
        \<and> map_of kvs ''message'' = Some (JStr m)
      \<longrightarrow> register_action rt be req
            = (Inr (ErrorData (Some (JStr m))),
               [Create (email d) (password d) (firstName d) (lastName d)]))
   \<and> (\<not> truthy (opt_prop (Some r) ''errors'')
        \<and> POST_users_login be (email d) (password d) = Inr l
        \<and> opt_prop (Some l) ''errors'' = Some (JArr (JObj kvs # rest))
        \<and> map_of kvs ''message'' = Some (JStr m)
      \<longrightarrow> register_action rt be req
            = (Inr (ErrorData (Some (JStr m))),
               [Create (email d) (password d) (firstName d) (lastName d),
                Login (email d) (password d)]))
   \<and> (\<not> truthy (opt_prop (Some r) ''errors'')
        \<and> POST_users_login be (email d) (password d) = Inr l
        \<and> \<not> truthy (opt_prop (Some l) ''errors'')
        \<and> truthy (opt_prop (Some l) ''user'')
        \<and> template_str rt (opt_prop (Some l) ''token'') = Inr t
        \<and> Date_toUTCString rt (opt_prop (Some l) ''expires'') = Inr x
        \<and> header_valid (header_normalize (''payload-token='' @ t @ ''; path=/; expires='' @ x))
      \<longrightarrow> register_action rt be req
            = (Inr (Redirect ''/''
                 [(''Set-Cookie'',
                   header_normalize (''payload-token='' @ t @ ''; path=/; expires='' @ x))]),
               [Create (email d) (password d) (firstName d) (lastName d),
                Login (email d) (password d)])
          \<and> cookie_named ''payload-token'' (fst (register_action rt be req)))
   \<and> (\<not> truthy (opt_prop (Some r) ''errors'')
        \<and> POST_users_login be (email d) (password d) = Inr l
        \<and> \<not> truthy (opt_prop (Some l) ''errors'')
        \<and> truthy (opt_prop (Some l) ''user'')
        \<and> session_cookie rt l = Inl e
      \<longrightarrow> register_action rt be req
            = (Inr (ErrorData (Some (JStr (caught_message e)))),
               [Create (email d) (password d) (firstName d) (lastName d),
                Login (email d) (password d)]))
   \<and> (\<not> truthy (opt_prop (Some r) ''errors'')
        \<and> POST_users_login be (email d) (password d) = Inr l
        \<and> \<not> truthy (opt_prop (Some l) ''errors'')
        \<and> truthy (opt_prop (Some l) ''user'')
        \<and> session_cookie rt l = Inr c
        \<and> \<not> header_valid (header_normalize c)
      \<longrightarrow> register_action rt be req
            = (Inr (ErrorData (Some (JStr (header_error rt (header_normalize c))))),
               [Create (email d) (password d) (firstName d) (lastName d),
                Login (email d) (password d)]))"
proof -
  note acc = register_action_accepted [OF assms]
  have 1: "opt_prop (Some r) ''errors'' = Some (JArr (JObj kvs # rest))
        \<and> map_of kvs ''message'' = Some (JStr m)
      \<longrightarrow> register_action rt be req
            = (Inr (ErrorData (Some (JStr m))),
               [Create (email d) (password d) (firstName d) (lastName d)])"
    using assms
    by (simp add: register_action_def createUser_def eff_defs
        first_error_message_structured Error_of_string catch_handler_def)
  have 2: "\<not> truthy (opt_prop (Some r) ''errors'')
        \<and> POST_users_login be (email d) (password d) = Inr l
        \<and> opt_prop (Some l) ''errors'' = Some (JArr (JObj kvs # rest))
        \<and> map_of kvs ''message'' = Some (JStr m)
      \<longrightarrow> register_action rt be req
            = (Inr (ErrorData (Some (JStr m))),
               [Create (email d) (password d) (firstName d) (lastName d),
                Login (email d) (password d)])"
    using assms
    by (simp add: register_action_def createUser_def loginUser_def eff_defs
        first_error_message_structured Error_of_string catch_handler_def)
  have 3: "\<not> truthy (opt_prop (Some r) ''errors'')
        \<and> POST_users_login be (email d) (password d) = Inr l
        \<and> \<not> truthy (opt_prop (Some l) ''errors'')
        \<and> truthy (opt_prop (Some l) ''user'')
        \<and> template_str rt (opt_prop (Some l) ''token'') = Inr t
        \<and> Date_toUTCString rt (opt_prop (Some l) ''expires'') = Inr x
        \<and> header_valid (header_normalize (''payload-token='' @ t @ ''; path=/; expires='' @ x))
      \<longrightarrow> register_action rt be req
            = (Inr (Redirect ''/''
                 [(''Set-Cookie'',
                   header_normalize (''payload-token='' @ t @ ''; path=/; expires='' @ x))]),
               [Create (email d) (password d) (firstName d) (lastName d),
                Login (email d) (password d)])
          \<and> cookie_named ''payload-token'' (fst (register_action rt be req))"
  proof
    assume a: "\<not> truthy (opt_prop (Some r) ''errors'')
        \<and> POST_users_login be (email d) (password d) = Inr l
        \<and> \<not> truthy (opt_prop (Some l) ''errors'')
        \<and> truthy (opt_prop (Some l) ''user'')
        \<and> template_str rt (opt_prop (Some l) ''token'') = Inr t
        \<and> Date_toUTCString rt (opt_prop (Some l) ''expires'') = Inr x
        \<and> header_valid (header_normalize (''payload-token='' @ t @ ''; path=/; expires='' @ x))"
    then have "cookie_or_error rt l
           = Redirect ''/''
               [(''Set-Cookie'',
                 header_normalize (''payload-token='' @ t @ ''; path=/; expires='' @ x))]"
      using cookie_or_error_built by blast
    moreover from a have "register_action rt be req
            = (Inr (cookie_or_error rt l),
               [Create (email d) (password d) (firstName d) (lastName d),
                Login (email d) (password d)])"
      using acc by blast
    ultimately have e: "register_action rt be req
            = (Inr (Redirect ''/''
                 [(''Set-Cookie'',
                   header_normalize (''payload-token='' @ t @ ''; path=/; expires='' @ x))]),
               [Create (email d) (password d) (firstName d) (lastName d),
                Login (email d) (password d)])"
      by (simp only:)
    moreover have "cookie_named ''payload-token'' (fst (register_action rt be req))"
      unfolding e fst_conv by (rule cookie_named_normalized)
    ultimately show "register_action rt be req
            = (Inr (Redirect ''/''
                 [(''Set-Cookie'',
                   header_normalize (''payload-token='' @ t @ ''; path=/; expires='' @ x))]),
               [Create (email d) (password d) (firstName d) (lastName d),
                Login (email d) (password d)])
          \<and> cookie_named ''payload-token'' (fst (register_action rt be req))"
      by (rule conjI)
  qed
  have 4: "\<not> truthy (opt_prop (Some r) ''errors'')
        \<and> POST_users_login be (email d) (password d) = Inr l
        \<and> \<not> truthy (opt_prop (Some l) ''errors'')
        \<and> truthy (opt_prop (Some l) ''user'')
        \<and> session_cookie rt l = Inl e
      \<longrightarrow> register_action rt be req
            = (Inr (ErrorData (Some (JStr (caught_message e)))),
               [Create (email d) (password d) (firstName d) (lastName d),
                Login (email d) (password d)])"
    using acc [of l rt] by (auto simp: cookie_or_error_thrown)
  have 5: "\<not> truthy (opt_prop (Some r) ''errors'')
        \<and> POST_users_login be (email d) (password d) = Inr l
        \<and> \<not> truthy (opt_prop (Some l) ''errors'')
        \<and> truthy (opt_prop (Some l) ''user'')
        \<and> session_cookie rt l = Inr c
        \<and> \<not> header_valid (header_normalize c)
      \<longrightarrow> register_action rt be req
            = (Inr (ErrorData (Some (JStr (header_error rt (header_normalize c))))),
               [Create (email d) (password d) (firstName d) (lastName d),
                Login (email d) (password d)])"
    using acc [of l rt] by (auto simp: cookie_or_error_refused)
  from 1 2 3 4 5 show ?thesis
    by (rule conjI [OF _ conjI [OF _ conjI [OF _ conjI]]])
qed

text \<open>C4 at a backend that refuses the registration, at one that creates the account and
  refuses the login, at one that accepts both, and at one whose token holds a line
  feed.\<close>

theorem C4_witness:
  "register_action rt0 be_reject req_register
     = (Inr (ErrorData (Some (JStr ''A user with the given email is already registered.''))),
        [Create ''ann@example.com'' ''secret1'' ''Ann'' ''Lee''])
   \<and> register_action rt0 be_create_only req_register
     = (Inr (ErrorData (Some (JStr ''The email or password provided is incorrect.''))),
        [Create ''ann@example.com'' ''secret1'' ''Ann'' ''Lee'',
         Login ''ann@example.com'' ''secret1''])
   \<and> register_action rt0 be_accept req_register
     = (Inr (Redirect ''/''
          [(''Set-Cookie'', ''payload-token=t0k3n; path=/; expires=Tue, 01 Jan 2030 00:00:00 GMT'')]),
        [Create ''ann@example.com'' ''secret1'' ''Ann'' ''Lee'',
         Login ''ann@example.com'' ''secret1''])
   \<and> register_action rt0 be_linefeed req_register
     = (Inr (ErrorData (Some (JStr ''invalid header value''))),
        [Create ''ann@example.com'' ''secret1'' ''Ann'' ''Lee'',
         Login ''ann@example.com'' ''secret1''])"
proof -
  let ?d = "\<lparr>email = ''ann@example.com'', password = ''secret1'',
             firstName = ''Ann'', lastName = ''Lee''\<rparr>"
  let ?created = "JObj [(''doc'', a_user), (''message'', JStr ''created'')]"
  let ?lf = "JObj [(''user'', a_user), (''token'', JStr [CHR ''a'', CHR 0x0A, CHR ''b'']),
                   (''expires'', JStr ''2030-01-01T00:00:00.000Z'')]"
  have f: "formData req_register = Inr register_form"
    by (simp add: req_register_def)
  have 1: "POST_users be_reject (email ?d) (password ?d) (firstName ?d) (lastName ?d)
           = Inr (rejection ''A user with the given email is already registered.'')"
    by (simp add: be_reject_def)
  have 2: "POST_users be_create_only (email ?d) (password ?d) (firstName ?d) (lastName ?d)
           = Inr ?created"
    by (simp add: be_create_only_def be_accept_def)
  have 3: "POST_users be_accept (email ?d) (password ?d) (firstName ?d) (lastName ?d)
           = Inr ?created"
    by (simp add: be_accept_def)
  have 4: "POST_users be_linefeed (email ?d) (password ?d) (firstName ?d) (lastName ?d)
           = Inr ?created"
    by (simp add: be_linefeed_def be_accept_def)
  have c: "session_cookie rt0 ?lf
           = Inr (''payload-token='' @ [CHR ''a'', CHR 0x0A, CHR ''b'']
                  @ ''; path=/; expires=Tue, 01 Jan 2030 00:00:00 GMT'')"
    by (simp add: session_cookie_def template_str_def ToString_def Date_toUTCString_def
        rt0_def utc0_def)
  show ?thesis
    using
      C4_register_then_login [OF f register_form_valid 1,
        where kvs = "[(''message'', JStr ''A user with the given email is already registered.'')]"
          and rest = "[]" and m = "''A user with the given email is already registered.''"
          and rt = rt0]
      C4_register_then_login [OF f register_form_valid 2,
        where kvs = "[(''message'', JStr ''The email or password provided is incorrect.'')]"
          and rest = "[]" and m = "''The email or password provided is incorrect.''"
          and l = "rejection ''The email or password provided is incorrect.''" and rt = rt0]
      C4_register_then_login [OF f register_form_valid 3,
        where l = a_session and rt = rt0 and t = "''t0k3n''"
          and x = "''Tue, 01 Jan 2030 00:00:00 GMT''"]
      C4_register_then_login [OF f register_form_valid 4,
        where l = ?lf and rt = rt0
          and c = "''payload-token='' @ [CHR ''a'', CHR 0x0A, CHR ''b'']
                  @ ''; path=/; expires=Tue, 01 Jan 2030 00:00:00 GMT''"]
      c
    by (simp add: rejection_def be_create_only_def be_reject_def be_accept_def be_linefeed_def
        a_session_def a_user_def template_str_def ToString_def Date_toUTCString_def rt0_def
        utc0_def header_normalize_def header_valid_def http_whitespace_def)
qed

subsection \<open>Login\<close>

text \<open>
  Counterexample to C5 as stated: the cookie of an accepted login is named
  \<^verbatim>\<open>payload-token\<close>, and the response carries no cookie named \<^verbatim>\<open>session-token\<close>;
  and when the accepted login's token holds a line feed, \<^verbatim>\<open>redirect\<close> throws on the
  cookie value inside the \<^verbatim>\<open>try\<close>, so the response is the caught message, without a
  redirect and without any cookie.
\<close>

theorem C5_counterexample:
  "login_action rt0 be_accept req_login
     = (Inr (Redirect ''/''
          [(''Set-Cookie'', ''payload-token=t0k3n; path=/; expires=Tue, 01 Jan 2030 00:00:00 GMT'')]),
        [Login ''ann@example.com'' ''secret1''])
   \<and> \<not> cookie_named ''session-token'' (fst (login_action rt0 be_accept req_login))
   \<and> login_action rt0 be_linefeed req_login
     = (Inr (ErrorData (Some (JStr ''invalid header value''))),
        [Login ''ann@example.com'' ''secret1''])
   \<and> \<not> cookie_named ''payload-token'' (fst (login_action rt0 be_linefeed req_login))"
  by (simp add: login_action_def loginUser_def eff_defs req_login_def login_form_valid
      be_linefeed_def be_accept_def a_session_def a_user_def session_cookie_def
      template_str_def ToString_def Date_toUTCString_def rt0_def utc0_def redirect_def
      header_normalize_def header_valid_def http_whitespace_def catch_handler_def
      cookie_named_def)

text \<open>
  C5 (as amended): for a valid login submission that the backend accepts (its answer
  has a user and no errors), provided the token and the expiry convert to text and the
  cookie value, as \<^verbatim>\<open>Headers\<close> stores it, holds no NUL, line feed or carriage return,
  the response is a redirect to \<^verbatim>\<open>/\<close> whose \<^verbatim>\<open>Set-Cookie\<close> header names the cookie
  \<^verbatim>\<open>payload-token\<close>, carries the answer's token, has path \<^verbatim>\<open>/\<close> and expires at the
  answer's \<^verbatim>\<open>expires\<close> as the runtime renders that date. When the cookie value cannot
  be built, the action returns the message of the error thrown on the way and sets no
  cookie.
\<close>

theorem C5_login_sets_payload_token:
  assumes "formData req = Inr fd"
    and "LoginSchema (fromEntries fd) = Some d"
    and "POST_users_login be (email d) (password d) = Inr resp"
    and "\<not> truthy (opt_prop (Some resp) ''errors'')"
    and "truthy (opt_prop (Some resp) ''user'')"
  shows
    "(template_str rt (opt_prop (Some resp) ''token'') = Inr t
        \<and> Date_toUTCString rt (opt_prop (Some resp) ''expires'') = Inr x
        \<and> header_valid (header_normalize (''payload-token='' @ t @ ''; path=/; expires='' @ x))
      \<longrightarrow> login_action rt be req
            = (Inr (Redirect ''/''
                 [(''Set-Cookie'',
                   header_normalize (''payload-token='' @ t @ ''; path=/; expires='' @ x))]),
               [Login (email d) (password d)])
          \<and> cookie_named ''payload-token'' (fst (login_action rt be req)))
   \<and> (session_cookie rt resp = Inl e
      \<longrightarrow> login_action rt be req
            = (Inr (ErrorData (Some (JStr (caught_message e)))), [Login (email d) (password d)]))
   \<and> (session_cookie rt resp = Inr c \<and> \<not> header_valid (header_normalize c)
      \<longrightarrow> login_action rt be req
            = (Inr (ErrorData (Some (JStr (header_error rt (header_normalize c))))),
               [Login (email d) (password d)]))"
proof -
  note acc = login_action_accepted [OF assms, of rt]
  have 1: "template_str rt (opt_prop (Some resp) ''token'') = Inr t
        \<and> Date_toUTCString rt (opt_prop (Some resp) ''expires'') = Inr x
        \<and> header_valid (header_normalize (''payload-token='' @ t @ ''; path=/; expires='' @ x))
      \<longrightarrow> login_action rt be req
            = (Inr (Redirect ''/''
                 [(''Set-Cookie'',
                   header_normalize (''payload-token='' @ t @ ''; path=/; expires='' @ x))]),
               [Login (email d) (password d)])
          \<and> cookie_named ''payload-token'' (fst (login_action rt be req))"
  proof
    assume a: "template_str rt (opt_prop (Some resp) ''token'') = Inr t
        \<and> Date_toUTCString rt (opt_prop (Some resp) ''expires'') = Inr x
        \<and> header_valid (header_normalize (''payload-token='' @ t @ ''; path=/; expires='' @ x))"
    then have "cookie_or_error rt resp
           = Redirect ''/''
               [(''Set-Cookie'',
                 header_normalize (''payload-token='' @ t @ ''; path=/; expires='' @ x))]"
      using cookie_or_error_built by blast
    with acc have e: "login_action rt be req
            = (Inr (Redirect ''/''
                 [(''Set-Cookie'',
                   header_normalize (''payload-token='' @ t @ ''; path=/; expires='' @ x))]),
               [Login (email d) (password d)])"
      by (simp only:)
    moreover have "cookie_named ''payload-token'' (fst (login_action rt be req))"
      unfolding e fst_conv by (rule cookie_named_normalized)
    ultimately show "login_action rt be req
            = (Inr (Redirect ''/''
                 [(''Set-Cookie'',
                   header_normalize (''payload-token='' @ t @ ''; path=/; expires='' @ x))]),
               [Login (email d) (password d)])
          \<and> cookie_named ''payload-token'' (fst (login_action rt be req))"
      by (rule conjI)
  qed
  have 2: "session_cookie rt resp = Inl e
      \<longrightarrow> login_action rt be req
            = (Inr (ErrorData (Some (JStr (caught_message e)))), [Login (email d) (password d)])"
    using acc by (simp add: cookie_or_error_thrown)
  have 3: "session_cookie rt resp = Inr c \<and> \<not> header_valid (header_normalize c)
      \<longrightarrow> login_action rt be req
            = (Inr (ErrorData (Some (JStr (header_error rt (header_normalize c))))),
               [Login (email d) (password d)])"
    using acc by (simp add: cookie_or_error_refused)
  from 1 2 3 show ?thesis
    by (rule conjI [OF _ conjI])
qed

text \<open>C5 at the accepting backend, and at the one whose token holds a line feed.\<close>

theorem C5_witness:
  "login_action rt0 be_accept req_login
     = (Inr (Redirect ''/''
          [(''Set-Cookie'', ''payload-token=t0k3n; path=/; expires=Tue, 01 Jan 2030 00:00:00 GMT'')]),
        [Login ''ann@example.com'' ''secret1''])
   \<and> cookie_named ''payload-token'' (fst (login_action rt0 be_accept req_login))
   \<and> login_action rt0 be_linefeed req_login
     = (Inr (ErrorData (Some (JStr ''invalid header value''))),
        [Login ''ann@example.com'' ''secret1''])"
proof -
  let ?d = "\<lparr>email = ''ann@example.com'', password = ''secret1''\<rparr>"
  let ?lf = "JObj [(''user'', a_user), (''token'', JStr [CHR ''a'', CHR 0x0A, CHR ''b'']),
                   (''expires'', JStr ''2030-01-01T00:00:00.000Z'')]"
  have f: "formData req_login = Inr login_form"
    by (simp add: req_login_def)
  have l: "POST_users_login be_accept (email ?d) (password ?d) = Inr a_session"
    by (simp add: be_accept_def)
  have e: "\<not> truthy (opt_prop (Some a_session) ''errors'')"
    by (simp add: a_session_def)
  have u: "truthy (opt_prop (Some a_session) ''user'')"
    by (simp add: a_session_def a_user_def)
  have l': "POST_users_login be_linefeed (email ?d) (password ?d) = Inr ?lf"
    by (simp add: be_linefeed_def)
  have e': "\<not> truthy (opt_prop (Some ?lf) ''errors'')"
    by simp
  have u': "truthy (opt_prop (Some ?lf) ''user'')"
    by (simp add: a_user_def)
  have c: "session_cookie rt0 ?lf
           = Inr (''payload-token='' @ [CHR ''a'', CHR 0x0A, CHR ''b'']
                  @ ''; path=/; expires=Tue, 01 Jan 2030 00:00:00 GMT'')"
    by (simp add: session_cookie_def template_str_def ToString_def Date_toUTCString_def
        rt0_def utc0_def)
  show ?thesis
    using
      C5_login_sets_payload_token [OF f login_form_valid l e u,
        where rt = rt0 and t = "''t0k3n''" and x = "''Tue, 01 Jan 2030 00:00:00 GMT''"]
      C5_login_sets_payload_token [OF f login_form_valid l' e' u',
        where rt = rt0
          and c = "''payload-token='' @ [CHR ''a'', CHR 0x0A, CHR ''b'']
                  @ ''; path=/; expires=Tue, 01 Jan 2030 00:00:00 GMT''"]
      c
    by (simp add: a_session_def template_str_def ToString_def Date_toUTCString_def rt0_def
        utc0_def header_normalize_def header_valid_def http_whitespace_def cookie_named_def)
qed

subsection \<open>The route guards\<close>

text \<open>
  C6: when the backend resolves the request's cookie to a user, the login loader and
  the register loader both return a redirect to \<^verbatim>\<open>/\<close>, not the form's loader data.
\<close>

theorem C6_authenticated_redirects_home:
  assumes "GET_users_me be (cookie_or_empty req) = Inr r"
    and "truthy (opt_prop (Some r) ''user'')"
  shows "login_loader be req = (Inr (Redirect ''/'' []), [Me (cookie_or_empty req)])
       \<and> register_loader be req = (Inr (Redirect ''/'' []), [Me (cookie_or_empty req)])"
  using assms
  by (simp add: login_loader_def register_loader_def checkUser_def eff_defs)

text \<open>C6 at a request with a session cookie that the backend knows.\<close>

theorem C6_witness:
  "login_loader be_accept req_session = (Inr (Redirect ''/'' []), [Me ''payload-token=t0k3n''])
   \<and> register_loader be_accept req_session = (Inr (Redirect ''/'' []), [Me ''payload-token=t0k3n''])"
proof -
  have m: "GET_users_me be_accept (cookie_or_empty req_session) = Inr (JObj [(''user'', a_user)])"
    by (simp add: be_accept_def)
  have u: "truthy (opt_prop (Some (JObj [(''user'', a_user)])) ''user'')"
    by (simp add: a_user_def)
  show ?thesis
    using C6_authenticated_redirects_home [OF m u]
    by (simp add: cookie_or_empty_def req_session_def)
qed

text \<open>
  C7: when the backend's answer resolves the request's cookie to no user, the home
  loader returns a redirect to \<^verbatim>\<open>/login\<close> and its only backend call is the identity
  check: the user listing is not requested.
\<close>

theorem C7_anonymous_home_redirects_to_login:
  assumes "GET_users_me be (cookie_or_empty req) = Inr r"
    and "\<not> truthy (opt_prop (Some r) ''user'')"
  shows "home_loader be req = (Inr (Redirect ''/login'' []), [Me (cookie_or_empty req)])
       \<and> ListUsers c \<notin> set (snd (home_loader be req))"
  using assms
  by (simp add: home_loader_def checkUser_def eff_defs)

text \<open>C7 at a request whose cookie the backend does not know.\<close>

theorem C7_witness:
  "home_loader be_reject req_session = (Inr (Redirect ''/login'' []), [Me ''payload-token=t0k3n''])
   \<and> ListUsers ''payload-token=t0k3n'' \<notin> set (snd (home_loader be_reject req_session))"
proof -
  have m: "GET_users_me be_reject (cookie_or_empty req_session) = Inr (JObj [(''user'', JNull)])"
    by (simp add: be_reject_def)
  have u: "\<not> truthy (opt_prop (Some (JObj [(''user'', JNull)])) ''user'')"
    by simp
  show ?thesis
    using C7_anonymous_home_redirects_to_login [OF m u, of "''payload-token=t0k3n''"]
    by (simp add: cookie_or_empty_def req_session_def)
qed

subsection \<open>Validation comes before the backend\<close>

text \<open>
  C8: for a submitted form whose password is shorter than six characters, the login and
  the register action both return \<^verbatim>\<open>{ error: "Invalid form data" }\<close> and make no
  backend call.
\<close>

theorem C8_short_password_no_backend_call:
  assumes "formData req = Inr fd"
    and "fromEntries fd ''password'' = Some (Text p)"
    and "length p < 6"
  shows "login_action rt be req = (Inr (ErrorData (Some (JStr ''Invalid form data''))), [])
       \<and> register_action rt be req = (Inr (ErrorData (Some (JStr ''Invalid form data''))), [])"
proof -
  have "z_string [Min 6] (fromEntries fd ''password'') = None"
    using assms(2,3) by (simp add: z_string_min_short)
  then have "LoginSchema (fromEntries fd) = None" and "RegisterSchema (fromEntries fd) = None"
    by (simp_all add: LoginSchema_def RegisterSchema_def split: option.splits)
  with assms(1) show ?thesis
    by (simp add: login_action_def register_action_def eff_defs)
qed

text \<open>C8 at the password \<^verbatim>\<open>abc\<close>.\<close>

theorem C8_witness:
  "login_action rt0 be_accept req_short_password
     = (Inr (ErrorData (Some (JStr ''Invalid form data''))), [])
   \<and> register_action rt0 be_accept req_short_password
     = (Inr (ErrorData (Some (JStr ''Invalid form data''))), [])"
proof -
  have f: "formData req_short_password
             = Inr [(''email'', Text ''ann@example.com''), (''password'', Text ''abc''),
                    (''firstName'', Text ''Ann''), (''lastName'', Text ''Lee'')]"
    by (simp add: req_short_password_def)
  have p: "fromEntries [(''email'', Text ''ann@example.com''), (''password'', Text ''abc''),
                        (''firstName'', Text ''Ann''), (''lastName'', Text ''Lee'')] ''password''
             = Some (Text ''abc'')"
    by (simp add: fromEntries_def)
  have n: "length ''abc'' < 6"
    by simp
  show ?thesis
    using C8_short_password_no_backend_call [OF f p n, of rt0 be_accept]
    by simp
qed

subsection \<open>The cookie between response and request\<close>

text \<open>
  Counterexample to C9 as stated: what the helpers extract from a request is the whole
  \<^verbatim>\<open>Cookie\<close> header. For a request that carries the encoded directive it is the
  directive, and for one that carries the pair \<^verbatim>\<open>payload-token=t0k3n\<close> it is that
  pair; neither is the token \<^verbatim>\<open>t0k3n\<close>.
\<close>

theorem C9_counterexample:
  "session_cookie rt0 a_session
     = Inr ''payload-token=t0k3n; path=/; expires=Tue, 01 Jan 2030 00:00:00 GMT''
   \<and> cookie_or_empty
       \<lparr>headers_Cookie = Some ''payload-token=t0k3n; path=/; expires=Tue, 01 Jan 2030 00:00:00 GMT'',
        formData = Inr []\<rparr>
     = ''payload-token=t0k3n; path=/; expires=Tue, 01 Jan 2030 00:00:00 GMT''
   \<and> cookie_or_empty
       \<lparr>headers_Cookie = Some ''payload-token=t0k3n; path=/; expires=Tue, 01 Jan 2030 00:00:00 GMT'',
        formData = Inr []\<rparr>
     \<noteq> ''t0k3n''
   \<and> cookie_or_empty req_session \<noteq> ''t0k3n''"
  by (simp add: cookie_or_empty_def session_cookie_def a_session_def template_str_def
      ToString_def Date_toUTCString_def rt0_def utc0_def req_session_def)

text \<open>
  C9 (as amended): for every login answer and runtime, a request whose \<^verbatim>\<open>Cookie\<close>
  header is the encoded directive has that header extracted unchanged: the extracted
  string is the directive itself, which starts with \<^verbatim>\<open>payload-token=\<close> followed by
  the token's text, and this string is what the identity check and the logout forward
  to the backend.
\<close>

theorem C9_cookie_header_forwarded_verbatim:
  assumes "session_cookie rt resp = Inr c"
    and "headers_Cookie req = Some c"
  shows "cookie_or_empty req = c
       \<and> (\<exists>t. template_str rt (opt_prop (Some resp) ''token'') = Inr t
              \<and> prefix (''payload-token='' @ t) (cookie_or_empty req))
       \<and> snd (checkUser be req) = [Me c]
       \<and> snd (logoutUser be req) = [Logout c]"
proof -
  have c: "cookie_or_empty req = c"
    using assms by (simp add: cookie_or_empty_def session_cookie_nonempty)
  moreover have "\<exists>t. template_str rt (opt_prop (Some resp) ''token'') = Inr t
                    \<and> prefix (''payload-token='' @ t) c"
    using assms(1) by (auto simp: session_cookie_def split: sum.splits)
  moreover have "snd (checkUser be req) = [Me c]"
    by (cases "GET_users_me be c") (simp_all add: checkUser_def eff_defs c)
  moreover have "snd (logoutUser be req) = [Logout c]"
    by (simp add: logoutUser_def eff_defs c)
  ultimately show ?thesis
    by simp
qed

text \<open>C9 at the directive of the example session.\<close>

theorem C9_witness:
  "cookie_or_empty
       \<lparr>headers_Cookie = Some ''payload-token=t0k3n; path=/; expires=Tue, 01 Jan 2030 00:00:00 GMT'',
        formData = Inr []\<rparr>
     = ''payload-token=t0k3n; path=/; expires=Tue, 01 Jan 2030 00:00:00 GMT''
   \<and> snd (checkUser be_accept
            \<lparr>headers_Cookie = Some ''payload-token=t0k3n; path=/; expires=Tue, 01 Jan 2030 00:00:00 GMT'',
             formData = Inr []\<rparr>)
     = [Me ''payload-token=t0k3n; path=/; expires=Tue, 01 Jan 2030 00:00:00 GMT'']"
proof -
  have s: "session_cookie rt0 a_session
             = Inr ''payload-token=t0k3n; path=/; expires=Tue, 01 Jan 2030 00:00:00 GMT''"
    by (simp add: session_cookie_def a_session_def template_str_def ToString_def
        Date_toUTCString_def rt0_def utc0_def)
  have h: "headers_Cookie
             \<lparr>headers_Cookie = Some ''payload-token=t0k3n; path=/; expires=Tue, 01 Jan 2030 00:00:00 GMT'',
              formData = Inr []\<rparr>
             = Some ''payload-token=t0k3n; path=/; expires=Tue, 01 Jan 2030 00:00:00 GMT''"
    by simp
  show ?thesis
    using C9_cookie_header_forwarded_verbatim [OF s h, of be_accept]
    by simp
qed

subsection \<open>An answer that is neither failure nor session\<close>

text \<open>
  C10: a valid login submission whose backend answer has neither an \<^verbatim>\<open>errors\<close> nor a
  \<^verbatim>\<open>user\<close> property makes the login action return \<^verbatim>\<open>undefined\<close>: neither an
  error object nor a redirect, so no cookie is set. The register action does the same
  when the account was created and the login answer has neither property.
\<close>

theorem C10_silent_fall_through:
  assumes "formData req = Inr fd"
    and "POST_users_login be e p = Inr resp"
    and "opt_prop (Some resp) ''errors'' = None"
    and "opt_prop (Some resp) ''user'' = None"
  shows "(LoginSchema (fromEntries fd) = Some \<lparr>email = e, password = p\<rparr>
          \<longrightarrow> login_action rt be req = (Inr Undefined, [Login e p]))
       \<and> (RegisterSchema (fromEntries fd) = Some \<lparr>email = e, password = p, firstName = f, lastName = l\<rparr>
            \<and> POST_users be e p f l = Inr r \<and> \<not> truthy (opt_prop (Some r) ''errors'')
          \<longrightarrow> register_action rt be req = (Inr Undefined, [Create e p f l, Login e p]))"
  using assms
  by (simp add: login_action_def register_action_def createUser_def loginUser_def eff_defs)

text \<open>C10 at a backend whose login answer is \<^verbatim>\<open>{ "message": "ok" }\<close>: such
  submissions exist.\<close>

theorem C10_witness:
  "login_action rt0 be_blank req_login
     = (Inr Undefined, [Login ''ann@example.com'' ''secret1''])
   \<and> register_action rt0 be_blank req_register
     = (Inr Undefined, [Create ''ann@example.com'' ''secret1'' ''Ann'' ''Lee'',
                        Login ''ann@example.com'' ''secret1''])"
proof -
  have f1: "formData req_login = Inr login_form" and f2: "formData req_register = Inr register_form"
    by (simp_all add: req_login_def req_register_def)
  have l: "POST_users_login be_blank ''ann@example.com'' ''secret1''
             = Inr (JObj [(''message'', JStr ''ok'')])"
    by (simp add: be_blank_def)
  have e: "opt_prop (Some (JObj [(''message'', JStr ''ok'')])) ''errors'' = None"
    and u: "opt_prop (Some (JObj [(''message'', JStr ''ok'')])) ''user'' = None"
    by simp_all
  show ?thesis
    using C10_silent_fall_through [OF f1 l e u, of rt0]
      C10_silent_fall_through [OF f2 l e u, where rt = rt0 and f = "''Ann''" and l = "''Lee''"
        and r = "JObj [(''doc'', a_user), (''message'', JStr ''created'')]"]
    by (simp add: login_form_valid register_form_valid be_blank_def be_accept_def)
qed

end
